theory Spec2Isabelle
  imports Main "HOL-Library.Finite_Map"
begin

section \<open>Go values used by the service\<close>

text \<open>
  A Go call either returns or panics. The only panic that the code of
  \<^verbatim>\<open>authservice.go\<close> can raise itself is the one of \<^verbatim>\<open>reflect.Value.NumField\<close>
  on a value whose kind is not \<^verbatim>\<open>Struct\<close>.
\<close>

datatype 'a result = Return 'a | Panic

text \<open>
  The error values. The first three are the package-level variables of \<^verbatim>\<open>main\<close>
  (lines 110, 111 and 143); \<open>UserAlreadyExists\<close> is \<^verbatim>\<open>user.UserAlreadyExists\<close>, which
  \<^verbatim>\<open>createUser\<close> compares against. Every other error value (of echo, ioutil, jwt or
  the user package) is an \<open>OtherError\<close> with its message.

  Modelled from the spec: \<open>Unauthorized\<close> is the error with which the credential gateway
  (package \<^verbatim>\<open>user\<close>, not part of the sources at hand) answers a failed credential check;
  section 4.4 of the specification names it, the code of \<^verbatim>\<open>authUser\<close> never inspects it.
\<close>

datatype error =
    ReqLengthStructLengthNotEqual
  | ReqFieldsStructFieldsNotEqual
  | StructNotRecognized
  | UserAlreadyExists
  | Unauthorized
  | OtherError string

subsection \<open>Reflected request structures\<close>

text \<open>
  \<^verbatim>\<open>reflect.Kind\<close> without \<^verbatim>\<open>Struct\<close>: a reflected value is either a struct, with its
  fields in declaration order, or a value of one of the other kinds. The constructor
  decides the test \<^verbatim>\<open>fieldValue.Type().Kind() == reflect.Struct\<close>.
\<close>

datatype kind =
    Invalid | Bool | Int | Int8 | Int16 | Int32 | Int64
  | Uint | Uint8 | Uint16 | Uint32 | Uint64 | Uintptr
  | Float32 | Float64 | Complex64 | Complex128
  | Array | Chan | Func | Interface | Map | Ptr | Slice | String | UnsafePointer

datatype rvalue = StructValue "(string \<times> rvalue) list" | OtherValue kind

fun is_Struct :: "rvalue \<Rightarrow> bool" where
  "is_Struct (StructValue _) = True"
| "is_Struct (OtherValue _) = False"

text \<open>
  \<^verbatim>\<open>authUserReq\<close> (line 70) and \<^verbatim>\<open>createUserReq\<close> (line 24), which embeds the former
  as an anonymous field before \<^verbatim>\<open>Email\<close>.
\<close>

definition authUserReq :: rvalue where
  "authUserReq = StructValue [(''UserID'', OtherValue String), (''Password'', OtherValue String)]"

definition createUserReq :: rvalue where
  "createUserReq = StructValue [(''authUserReq'', authUserReq), (''Email'', OtherValue String)]"

subsection \<open>The echo context\<close>

text \<open>
  What a handler sees of \<^verbatim>\<open>echo.Context\<close> during one request: the error of parsing
  the form that is still to be reported (\<open>parseErr\<close>), the parsed form (Go's
  \<^verbatim>\<open>url.Values\<close>, a map from a name to the list of its values; after a failed parse
  it holds the pairs that did parse), the lines written to the logger, and the
  response under construction.
\<close>

text \<open>
  The arguments of a log line; \<open>ArgValue r\<close> stands for the text of \<^verbatim>\<open>r.String()\<close>.
\<close>

datatype arg = ArgError error | ArgInt nat | ArgValue rvalue

record Context =
  parseErr :: "error option"
  form :: "(string, string list) fmap"
  logger :: "(string \<times> arg list) list"
  response_status :: "nat option"
  response_header :: "(string, string) fmap"

definition Printf :: "Context \<Rightarrow> string \<Rightarrow> arg list \<Rightarrow> Context" where
  "Printf c format args = c\<lparr>logger := logger c @ [(format, args)]\<rparr>"

definition Print :: "Context \<Rightarrow> arg list \<Rightarrow> Context" where
  "Print c args = c\<lparr>logger := logger c @ [([], args)]\<rparr>"

definition NoContent :: "Context \<Rightarrow> nat \<Rightarrow> Context" where
  "NoContent c code = c\<lparr>response_status := Some code\<rparr>"

definition Header_Set :: "Context \<Rightarrow> string \<Rightarrow> string \<Rightarrow> Context" where
  "Header_Set c key v = c\<lparr>response_header := fmupd key v (response_header c)\<rparr>"

text \<open>
  \<^verbatim>\<open>c.FormParams()\<close> for a form-encoded body: the form and a nil error, or a nil map and
  the error. It parses through \<^verbatim>\<open>ParseForm\<close> of \<^verbatim>\<open>net/http\<close>, which stores what it
  parsed in the request and reports the error of a failed parse to the call that
  parses, and to no later call: the call returns the context without the error.
\<close>

definition FormParams :: "Context \<Rightarrow> ((string, string list) fmap \<times> error option) \<times> Context" where
  "FormParams c =
     (case parseErr c of
        Some err \<Rightarrow> ((fmempty, Some err), c\<lparr>parseErr := None\<rparr>)
      | None \<Rightarrow> ((form c, None), c))"

text \<open>
  \<^verbatim>\<open>c.FormValue(name)\<close>: the first value stored under the name, the empty string when
  there is none. Every call of it in \<^verbatim>\<open>authservice.go\<close> comes after the call of
  \<^verbatim>\<open>c.FormParams()\<close> in \<open>validateContext\<close>, on a form that is parsed already.
\<close>

definition FormValue :: "Context \<Rightarrow> string \<Rightarrow> string" where
  "FormValue c name = (case fmlookup (form c) name of Some (v # _) \<Rightarrow> v | _ \<Rightarrow> [])"

abbreviation StatusOK :: nat where "StatusOK \<equiv> 200"
abbreviation StatusCreated :: nat where "StatusCreated \<equiv> 201"
abbreviation StatusBadRequest :: nat where "StatusBadRequest \<equiv> 400"
abbreviation StatusUnauthorized :: nat where "StatusUnauthorized \<equiv> 401"
abbreviation StatusConflict :: nat where "StatusConflict \<equiv> 409"
abbreviation StatusInternalServerError :: nat where "StatusInternalServerError \<equiv> 500"

subsection \<open>Tokens, time and the collaborators\<close>

text \<open>
  \<^verbatim>\<open>jwt.MapClaims\<close> is a map from claim names to JSON values; the code stores strings
  and the \<^verbatim>\<open>int64\<close> results of \<^verbatim>\<open>Unix()\<close>. \<^verbatim>\<open>Token.Claims\<close> is an interface value,
  which \<^verbatim>\<open>jwt.New\<close> fills with an empty \<^verbatim>\<open>MapClaims\<close>.
\<close>

datatype jvalue = JString string | JInt int

datatype claims = MapClaims "(string, jvalue) fmap" | StandardClaims

datatype signing_method = SigningMethodRS256 | SigningMethodHS256

fun Alg :: "signing_method \<Rightarrow> string" where
  "Alg SigningMethodRS256 = ''RS256''"
| "Alg SigningMethodHS256 = ''HS256''"

record token =
  Header :: "(string, jvalue) fmap"
  Claims :: claims
  Method :: signing_method

definition jwt_New :: "signing_method \<Rightarrow> token" where
  "jwt_New method =
     \<lparr>Header = fmap_of_list [(''typ'', JString ''JWT''), (''alg'', JString (Alg method))],
      Claims = MapClaims fmempty,
      Method = method\<rparr>"

text \<open>
  A \<^verbatim>\<open>time.Time\<close> is an instant, in nanoseconds since the Unix epoch. \<^verbatim>\<open>UTC()\<close> keeps
  the instant; in UTC every day has 86400 seconds, so \<^verbatim>\<open>AddDate(0, 0, d)\<close> adds
  \<open>d\<close> times 86400 seconds; \<^verbatim>\<open>Unix()\<close> is the number of whole seconds.
\<close>

type_synonym time = int

definition UTC :: "time \<Rightarrow> time" where
  "UTC t = t"

definition AddDate_days :: "time \<Rightarrow> int \<Rightarrow> time" where
  "AddDate_days t d = t + d * 86400 * 1000000000"

definition Unix :: "time \<Rightarrow> int" where
  "Unix t = t div 1000000000"

text \<open>The records of package \<^verbatim>\<open>user\<close> that the handlers build (lines 46 and 89).\<close>

record AuthCredentials =
  UserID :: string
  Password :: string

record User =
  AuthCredentials :: AuthCredentials
  Email :: string

text \<open>
  Everything outside \<^verbatim>\<open>authservice.go\<close> that a request depends on: the file system as
  \<^verbatim>\<open>ioutil.ReadFile\<close> finds it, the two functions of the jwt library that need the
  key (\<open>'k\<close> is the type of parsed keys), the wall clock (\<open>Now e n\<close> is what the
  \<open>n\<close>-th call of \<^verbatim>\<open>time.Now()\<close> within the request returns, counted from 0), and
  the two operations of the credential gateway.
\<close>

record 'k env =
  ReadFile :: "string \<Rightarrow> error + string"
  ParseRSAPrivateKeyFromPEM :: "string \<Rightarrow> error + 'k"
  SignedString :: "token \<Rightarrow> 'k \<Rightarrow> error + string"
  Now :: "nat \<Rightarrow> time"
  CreateUser :: "User \<Rightarrow> error option"
  AuthUser :: "AuthCredentials \<Rightarrow> error option"

datatype call = CallCreateUser User | CallAuthUser AuthCredentials

section \<open>The functions of authservice.go\<close>

subsection \<open>getResourceFields (line 147)\<close>

text \<open>
  The loop over \<^verbatim>\<open>i < resource.NumField()\<close> is \<open>getResourceFields_loop\<close>, over the
  fields still to visit, with \<^verbatim>\<open>rFields\<close> as accumulator. The context is passed for
  logging only and is never used.
\<close>

fun getResourceFields :: "rvalue \<Rightarrow> Context \<Rightarrow> string list result"
  and getResourceFields_loop ::
    "(string \<times> rvalue) list \<Rightarrow> Context \<Rightarrow> string list \<Rightarrow> string list result"
where
  "getResourceFields (OtherValue k) c = Panic"
| "getResourceFields (StructValue fs) c = getResourceFields_loop fs c []"
| "getResourceFields_loop [] c rFields = Return rFields"
| "getResourceFields_loop ((fieldName, fieldValue) # rest) c rFields =
     (if is_Struct fieldValue
      then (case getResourceFields fieldValue c of
              Panic \<Rightarrow> Panic
            | Return recFields \<Rightarrow> getResourceFields_loop rest c (rFields @ recFields))
      else getResourceFields_loop rest c (rFields @ [fieldName]))"

subsection \<open>validateContext (line 118)\<close>

fun validateContext_loop :: "string list \<Rightarrow> Context \<Rightarrow> error option \<times> Context" where
  "validateContext_loop [] c = (None, c)"
| "validateContext_loop (v # rest) c =
     (let stringValue = FormValue c v in
      if stringValue = []
      then (Some ReqFieldsStructFieldsNotEqual,
            Printf c ''Request was missing key:value pairs.'' [])
      else validateContext_loop rest c)"

definition validateContext :: "rvalue \<Rightarrow> Context \<Rightarrow> (error option \<times> Context) result" where
  "validateContext resource c =
     (case getResourceFields resource c of
        Panic \<Rightarrow> Panic
      | Return fields' \<Rightarrow>
          (case FormParams c of
             ((reqForm, Some err), c0) \<Rightarrow>
               Return (Some err, Printf c0 ''validateRequest Failed with error: %v'' [ArgError err])
           | ((reqForm, None), c0) \<Rightarrow>
               if fcard (fmdom reqForm) \<noteq> length fields'
               then Return (Some ReqLengthStructLengthNotEqual,
                            Printf c0 ''validateRequest failed, reqForm length = %v and %v length = %v.''
                              [ArgInt (fcard (fmdom reqForm)), ArgValue resource, ArgInt (length fields')])
               else Return (validateContext_loop fields' c0)))"

subsection \<open>generateJwt (line 164)\<close>

definition keyPath :: string where
  "keyPath = ''/home/tjp/.ssh/jwt_private.pem''"

text \<open>
  The result is Go's pair of the token and the error. The branch of a failed type
  assertion returns the \<^verbatim>\<open>err\<close> of \<^verbatim>\<open>ReadFile\<close>, which is nil there.
\<close>

definition generateJwt :: "'k env \<Rightarrow> string \<Rightarrow> string \<times> error option" where
  "generateJwt e userID =
     (case ReadFile e keyPath of
        Inl err \<Rightarrow> ([], Some err)
      | Inr p \<Rightarrow>
          (let t = jwt_New SigningMethodRS256 in
           case Claims t of
             MapClaims claims0 \<Rightarrow>
               (let claims1 = fmupd ''iss'' (JString ''Auth-Service'') claims0;
                    claims2 = fmupd ''sub'' (JString userID) claims1;
                    claims3 = fmupd ''aud'' (JString ''Moment-Service'') claims2;
                    claims4 = fmupd ''exp'' (JInt (Unix (AddDate_days (UTC (Now e 0)) 7))) claims3;
                    claims5 = fmupd ''iat'' (JInt (Unix (UTC (Now e 1)))) claims4;
                    t' = t\<lparr>Claims := MapClaims claims5\<rparr>
                in case ParseRSAPrivateKeyFromPEM e p of
                     Inl err \<Rightarrow> ([], Some err)
                   | Inr key \<Rightarrow>
                       (case SignedString e t' key of
                          Inl err \<Rightarrow> ([], Some err)
                        | Inr tok \<Rightarrow> (tok, None)))
           | StandardClaims \<Rightarrow> ([], None)))"

subsection \<open>createUser (line 38) and authUser (line 82)\<close>

text \<open>
  A handler returns the context it leaves behind (log and response) together with the
  calls it made to the credential gateway, in order.
\<close>

definition createUser :: "'k env \<Rightarrow> Context \<Rightarrow> (Context \<times> call list) result" where
  "createUser e c =
     (let resource = createUserReq in
      case validateContext resource c of
        Panic \<Rightarrow> Panic
      | Return (Some err, c1) \<Rightarrow>
          Return (NoContent (Printf c1 ''main.ValidateContext Failed with err: %v'' [ArgError err])
                    StatusBadRequest, [])
      | Return (None, c1) \<Rightarrow>
          (let u = \<lparr>AuthCredentials =
                      \<lparr>UserID = FormValue c1 ''UserID'', Password = FormValue c1 ''Password''\<rparr>,
                    Email = FormValue c1 ''Email''\<rparr>
           in case CreateUser e u of
                Some err \<Rightarrow>
                  (let c2 = Printf c1 ''user.CreateUser Failed with error: %v'' [ArgError err];
                       status = (if err = UserAlreadyExists then StatusConflict
                                 else StatusInternalServerError)
                   in Return (NoContent c2 status, [CallCreateUser u]))
              | None \<Rightarrow> Return (NoContent c1 StatusCreated, [CallCreateUser u])))"

definition authUser :: "'k env \<Rightarrow> Context \<Rightarrow> (Context \<times> call list) result" where
  "authUser e c =
     (let resource = authUserReq in
      case validateContext resource c of
        Panic \<Rightarrow> Panic
      | Return (Some err, c1) \<Rightarrow>
          Return (NoContent (Printf c1 ''main.ValidateContext Failed with err: %v'' [ArgError err])
                    StatusBadRequest, [])
      | Return (None, c1) \<Rightarrow>
          (let aC = \<lparr>UserID = FormValue c1 ''UserID'', Password = FormValue c1 ''Password''\<rparr>
           in case AuthUser e aC of
                Some err \<Rightarrow>
                  Return (NoContent (Printf c1 ''user.AuthUser Failed with error: %v'' [ArgError err])
                            StatusUnauthorized, [CallAuthUser aC])
              | None \<Rightarrow>
                  (case generateJwt e (FormValue c1 ''UserID'') of
                     (tok, Some err) \<Rightarrow>
                       Return (NoContent (Print c1 [ArgError err]) StatusInternalServerError,
                               [CallAuthUser aC])
                   | (tok, None) \<Rightarrow>
                       Return (NoContent (Header_Set c1 ''jwt'' tok) StatusOK,
                               [CallAuthUser aC]))))"

section \<open>The specification's vocabulary\<close>

text \<open>
  Section 4.1 of the specification in its own words: a leaf emits its name, a group
  emits what its children emit, and the emitted names are concatenated in declaration
  order. \<open>getResourceFields\<close> is compared with it below.
\<close>

fun flatten :: "(string \<times> rvalue) list \<Rightarrow> string list" where
  "flatten [] = []"
| "flatten ((name, OtherValue k) # rest) = name # flatten rest"
| "flatten ((name, StructValue children) # rest) = flatten children @ flatten rest"

text \<open>
  Section 4.3 in its own words: the five claims of a token for subject \<open>s\<close>, issued at
  \<open>iat\<close> and expiring at \<open>exp\<close>.
\<close>

definition claim_set :: "string \<Rightarrow> int \<Rightarrow> int \<Rightarrow> (string, jvalue) fmap" where
  "claim_set s iat exp =
     fmap_of_list [(''iss'', JString ''Auth-Service''), (''sub'', JString s),
                   (''aud'', JString ''Moment-Service''), (''iat'', JInt iat), (''exp'', JInt exp)]"

text \<open>A gateway call all of whose fields are non-empty strings.\<close>

fun nonempty_call :: "call \<Rightarrow> bool" where
  "nonempty_call (CallCreateUser u) =
     (UserID (AuthCredentials u) \<noteq> [] \<and> Password (AuthCredentials u) \<noteq> [] \<and> Email u \<noteq> [])"
| "nonempty_call (CallAuthUser aC) = (UserID aC \<noteq> [] \<and> Password aC \<noteq> [])"


subsection \<open>Concrete requests and a concrete environment\<close>

text \<open>
  A freshly arrived request whose form parsed without error, given by its fields.
\<close>

definition request :: "(string \<times> string list) list \<Rightarrow> Context" where
  "request kvs =
     \<lparr>parseErr = None, form = fmap_of_list kvs, logger = [], response_status = None,
      response_header = fmempty\<rparr>"

text \<open>
  An environment in which the key file exists and holds a key that parses, the signer
  and both gateway operations succeed, and the clock stands at the epoch. The examples
  below change one component at a time.
\<close>

definition test_env :: "string env" where
  "test_env =
     \<lparr>ReadFile = (\<lambda>path. if path = keyPath then Inr ''PEM''
                       else Inl (OtherError ''no such file or directory'')),
      ParseRSAPrivateKeyFromPEM = (\<lambda>p. if p = ''PEM'' then Inr ''KEY''
                       else Inl (OtherError ''invalid key'')),
      SignedString = (\<lambda>t key. Inr ''signed''),
      Now = (\<lambda>n. 0),
      CreateUser = (\<lambda>u. None),
      AuthUser = (\<lambda>aC. None)\<rparr>"

section \<open>Flattening a request structure\<close>

lemma getResourceFields_flatten_aux:
  "(\<forall>fs. resource = StructValue fs \<longrightarrow> getResourceFields resource c = Return (flatten fs))"
  "getResourceFields_loop fs' c rFields = Return (rFields @ flatten fs')"
proof (induction resource c and fs' c rFields rule: getResourceFields_getResourceFields_loop.induct)
  case (4 fieldName fieldValue rest c rFields)
  show ?case
  proof (cases fieldValue)
    case (StructValue children)
    with 4 show ?thesis by simp
  next
    case (OtherValue k)
    with 4 show ?thesis by simp
  qed
qed simp_all

lemma getResourceFields_StructValue:
  "getResourceFields (StructValue fs) c = Return (flatten fs)"
  using getResourceFields_flatten_aux(1) by blast

lemma flatten_append: "flatten (xs @ ys) = flatten xs @ flatten ys"
  by (induction xs rule: flatten.induct) simp_all


text \<open>
  C6. On every structure \<open>getResourceFields\<close> returns the depth-first sequence of leaf
  names: a field that is not a structure contributes its own name, a field that is a
  structure contributes the names of its fields, recursively, and the contributions
  are concatenated in declaration order. A leaf \<open>C\<close> declared after a group with the
  leaves \<open>A\<close> and \<open>B\<close> gives exactly \<open>[A, B, C]\<close>, of length 3.
\<close>

theorem getResourceFields_depth_first:
  "getResourceFields (StructValue fs) c = Return (flatten fs)
   \<and> getResourceFields
        (StructValue [(''G'', StructValue [(''A'', OtherValue String), (''B'', OtherValue String)]),
                      (''C'', OtherValue String)]) c = Return [''A'', ''B'', ''C'']
   \<and> length [''A'', ''B'', ''C''] = 3"
  by (simp add: getResourceFields_flatten_aux(2))

section \<open>Validating a request\<close>

lemma FormParams_ok: "parseErr c = None \<Longrightarrow> FormParams c = ((form c, None), c)"
  by (simp add: FormParams_def)

lemma FormValue_empty_iff:
  "FormValue c name = [] \<longleftrightarrow>
     fmlookup (form c) name = None \<or> fmlookup (form c) name = Some []
     \<or> (\<exists>rest. fmlookup (form c) name = Some ([] # rest))"
  by (auto simp: FormValue_def split: option.splits list.splits)


lemma validateContext_loop_ok:
  "(\<forall>v \<in> set fs. FormValue c v \<noteq> []) \<Longrightarrow> validateContext_loop fs c = (None, c)"
  by (induction fs) simp_all

lemma validateContext_loop_missing:
  "v \<in> set fs \<Longrightarrow> FormValue c v = [] \<Longrightarrow>
   validateContext_loop fs c =
     (Some ReqFieldsStructFieldsNotEqual, Printf c ''Request was missing key:value pairs.'' [])"
  by (induction fs) auto

lemma validateContext_loop_None:
  "validateContext_loop fs c = (None, c1) \<Longrightarrow> c1 = c \<and> (\<forall>v \<in> set fs. FormValue c v \<noteq> [])"
  by (induction fs) (auto split: if_splits)



lemma validateContext_struct:
  "validateContext (StructValue fs) c =
     (case FormParams c of
        ((reqForm, Some err), c0) \<Rightarrow>
          Return (Some err, Printf c0 ''validateRequest Failed with error: %v'' [ArgError err])
      | ((reqForm, None), c0) \<Rightarrow>
          if fcard (fmdom reqForm) \<noteq> length (flatten fs)
          then Return (Some ReqLengthStructLengthNotEqual,
                       Printf c0 ''validateRequest failed, reqForm length = %v and %v length = %v.''
                         [ArgInt (fcard (fmdom reqForm)), ArgValue (StructValue fs),
                          ArgInt (length (flatten fs))])
          else Return (validateContext_loop (flatten fs) c0))"
  by (simp add: validateContext_def getResourceFields_StructValue del: getResourceFields.simps)

lemma validateContext_parsed:
  assumes "parseErr c = None"
  shows "validateContext (StructValue fs) c =
     (if fcard (fmdom (form c)) \<noteq> length (flatten fs)
      then Return (Some ReqLengthStructLengthNotEqual,
                   Printf c ''validateRequest failed, reqForm length = %v and %v length = %v.''
                     [ArgInt (fcard (fmdom (form c))), ArgValue (StructValue fs),
                      ArgInt (length (flatten fs))])
      else Return (validateContext_loop (flatten fs) c))"
  using assms by (simp add: validateContext_struct FormParams_ok)

text \<open>
  The error of a failed parse reaches the first validation only: that run returns it and
  leaves a context on which the next run decides from the pairs that did parse.
\<close>

lemma validateContext_parse_error:
  assumes "parseErr c = Some err"
  shows "validateContext (StructValue fs) c =
     Return (Some err,
             Printf (c\<lparr>parseErr := None\<rparr>) ''validateRequest Failed with error: %v'' [ArgError err])"
  using assms by (simp add: validateContext_struct FormParams_def)

lemma validateContext_struct_returns:
  "\<exists>d c1. validateContext (StructValue fs) c = Return (d, c1)"
proof (cases "parseErr c")
  case None
  then show ?thesis
    by (cases "validateContext_loop (flatten fs) c") (simp add: validateContext_parsed)
next
  case (Some err)
  then show ?thesis by (simp add: validateContext_parse_error)
qed

lemma validateContext_None:
  assumes "validateContext (StructValue fs) c = Return (None, c1)"
  shows "c1 = c \<and> (\<forall>v \<in> set (flatten fs). FormValue c v \<noteq> [])"
proof (cases "parseErr c")
  case (Some err)
  with assms show ?thesis by (simp add: validateContext_parse_error)
next
  case None
  with assms have "validateContext_loop (flatten fs) c = (None, c1)"
    by (simp add: validateContext_parsed split: if_splits)
  then show ?thesis by (rule validateContext_loop_None)
qed




lemma validate_bob_secret:
  "validateContext authUserReq (request [(''UserID'', [''bob'']), (''Password'', [''secret''])])
   = Return (None, request [(''UserID'', [''bob'']), (''Password'', [''secret''])])"
  by (simp add: validateContext_def authUserReq_def request_def FormParams_def FormValue_def
        fcard_finsert_if fcard_fempty)

text \<open>
  C2. Whenever the number of fields of the request differs from the number of
  flattened fields of the structure, in either direction, \<open>validateContext\<close> rejects
  with \<open>ReqLengthStructLengthNotEqual\<close>.
\<close>

theorem field_count_mismatch_rejected:
  assumes "parseErr c = None" and "fcard (fmdom (form c)) \<noteq> length (flatten fs)"
  shows "map_result fst (validateContext (StructValue fs) c)
           = Return (Some ReqLengthStructLengthNotEqual)"
  using assms by (simp add: validateContext_struct FormParams_ok)

text \<open>
  C2, on the specification's example (three fields against the two of \<^verbatim>\<open>authUserReq\<close>)
  and on a request with one field too few.
\<close>

theorem field_count_mismatch_rejected_witness:
  "parseErr (request [(''UserID'', [''bob'']), (''Password'', [''x'']), (''Extra'', [''y''])]) = None
   \<and> fcard (fmdom (form (request [(''UserID'', [''bob'']), (''Password'', [''x'']), (''Extra'', [''y''])]))) = 3
   \<and> length (flatten [(''UserID'', OtherValue String), (''Password'', OtherValue String)]) = 2
   \<and> map_result fst
        (validateContext authUserReq
           (request [(''UserID'', [''bob'']), (''Password'', [''x'']), (''Extra'', [''y''])]))
       = Return (Some ReqLengthStructLengthNotEqual)
   \<and> fcard (fmdom (form (request [(''UserID'', [''bob''])]))) = 1
   \<and> map_result fst (validateContext authUserReq (request [(''UserID'', [''bob''])]))
       = Return (Some ReqLengthStructLengthNotEqual)"
  using field_count_mismatch_rejected
          [of "request [(''UserID'', [''bob'']), (''Password'', [''x'']), (''Extra'', [''y''])]"
              "[(''UserID'', OtherValue String), (''Password'', OtherValue String)]"]
        field_count_mismatch_rejected
          [of "request [(''UserID'', [''bob''])]"
              "[(''UserID'', OtherValue String), (''Password'', OtherValue String)]"]
  by (simp add: request_def authUserReq_def fcard_finsert_if fcard_fempty)

text \<open>
  C5 as stated fails: with \<^verbatim>\<open>Password\<close> absent from a one-field request, the count
  check of line 128 answers first, with \<open>ReqLengthStructLengthNotEqual\<close>.
\<close>

theorem missing_field_counterexample:
  "''Password'' \<in> set (flatten [(''UserID'', OtherValue String), (''Password'', OtherValue String)])
   \<and> fmlookup (form (request [(''UserID'', [''bob''])])) ''Password'' = None
   \<and> map_result fst (validateContext authUserReq (request [(''UserID'', [''bob''])]))
       = Return (Some ReqLengthStructLengthNotEqual)
   \<and> map_result fst (validateContext authUserReq (request [(''UserID'', [''bob''])]))
       \<noteq> Return (Some ReqFieldsStructFieldsNotEqual)"
  by (simp add: validateContext_def authUserReq_def request_def FormParams_def
        fcard_finsert_if fcard_fempty)

text \<open>
  C5, amended. When the request has as many fields as the flattened structure, and the
  value of some expected name is absent or is the empty string, \<open>validateContext\<close>
  rejects with \<open>ReqFieldsStructFieldsNotEqual\<close>; an absent name, a name without values
  and a name whose first value is empty are rejected alike.
\<close>

theorem missing_or_empty_field_rejected:
  assumes "parseErr c = None" and "fcard (fmdom (form c)) = length (flatten fs)"
    and "name \<in> set (flatten fs)"
    and "fmlookup (form c) name = None \<or> fmlookup (form c) name = Some []
         \<or> (\<exists>rest. fmlookup (form c) name = Some ([] # rest))"
  shows "map_result fst (validateContext (StructValue fs) c)
           = Return (Some ReqFieldsStructFieldsNotEqual)"
proof -
  from assms(4) have "FormValue c name = []"
    by (simp add: FormValue_empty_iff)
  with assms(3) have "fst (validateContext_loop (flatten fs) c) = Some ReqFieldsStructFieldsNotEqual"
    by (simp add: validateContext_loop_missing)
  with assms(1,2) show ?thesis
    by (simp add: validateContext_struct FormParams_ok)
qed

text \<open>
  C5, amended, on the specification's example of a blank password and on a request
  in which an unexpected field takes the place of the password.
\<close>

theorem missing_or_empty_field_rejected_witness:
  "fmlookup (form (request [(''UserID'', [''bob'']), (''Password'', [''''])])) ''Password'' = Some ['''']
   \<and> map_result fst
        (validateContext authUserReq (request [(''UserID'', [''bob'']), (''Password'', [''''])]))
       = Return (Some ReqFieldsStructFieldsNotEqual)
   \<and> fmlookup (form (request [(''UserID'', [''bob'']), (''Extra'', [''y''])])) ''Password'' = None
   \<and> map_result fst
        (validateContext authUserReq (request [(''UserID'', [''bob'']), (''Extra'', [''y''])]))
       = Return (Some ReqFieldsStructFieldsNotEqual)"
  using missing_or_empty_field_rejected
          [of "request [(''UserID'', [''bob'']), (''Password'', [''''])]"
              "[(''UserID'', OtherValue String), (''Password'', OtherValue String)]" "''Password''"]
        missing_or_empty_field_rejected
          [of "request [(''UserID'', [''bob'']), (''Extra'', [''y''])]"
              "[(''UserID'', OtherValue String), (''Password'', OtherValue String)]" "''Password''"]
  by (simp add: request_def authUserReq_def fcard_finsert_if fcard_fempty)

text \<open>
  C7. When the request has as many fields as the flattened structure and every expected
  name has a non-empty value, \<open>validateContext\<close> returns nil and leaves the context,
  and with it every value of the form, as it was.
\<close>

theorem well_formed_request_accepted:
  assumes "parseErr c = None" and "fcard (fmdom (form c)) = length (flatten fs)"
    and "\<forall>name \<in> set (flatten fs). \<exists>v rest. fmlookup (form c) name = Some (v # rest) \<and> v \<noteq> []"
  shows "validateContext (StructValue fs) c = Return (None, c)"
proof -
  have "\<forall>name \<in> set (flatten fs). FormValue c name \<noteq> []"
    using assms(3) by (fastforce simp: FormValue_def)
  then have "validateContext_loop (flatten fs) c = (None, c)"
    by (rule validateContext_loop_ok)
  with assms(1,2) show ?thesis
    by (simp add: validateContext_struct FormParams_ok)
qed

text \<open>C7 on the specification's example.\<close>

theorem well_formed_request_accepted_witness:
  "fmlookup (form (request [(''UserID'', [''bob'']), (''Password'', [''secret''])])) ''UserID''
     = Some [''bob'']
   \<and> fmlookup (form (request [(''UserID'', [''bob'']), (''Password'', [''secret''])])) ''Password''
     = Some [''secret'']
   \<and> validateContext authUserReq (request [(''UserID'', [''bob'']), (''Password'', [''secret''])])
     = Return (None, request [(''UserID'', [''bob'']), (''Password'', [''secret''])])"
  using well_formed_request_accepted
          [of "request [(''UserID'', [''bob'']), (''Password'', [''secret''])]"
              "[(''UserID'', OtherValue String), (''Password'', OtherValue String)]"]
  by (simp add: request_def authUserReq_def fcard_finsert_if fcard_fempty)



section \<open>The kinds of the fields\<close>

text \<open>
  C8 as stated fails: a structure with a pointer field and a function field, neither a
  string-like leaf nor a nested structure, is flattened without any error; both fields
  are emitted as leaves.
\<close>

theorem unrecognised_kind_counterexample:
  "getResourceFields (StructValue [(''Auth'', OtherValue Ptr), (''Callback'', OtherValue Func)])
     (request []) = Return [''Auth'', ''Callback'']"
  by simp

text \<open>
  C8, amended. \<open>getResourceFields\<close> has no error result: a field of any kind other than
  \<^verbatim>\<open>Struct\<close>, wherever it stands in the structure, is emitted as a leaf under its own
  name, and the validation of a request whose form parsed never answers
  \<open>StructNotRecognized\<close>.
\<close>

theorem every_other_kind_is_a_leaf:
  "getResourceFields (StructValue (pre @ (name, OtherValue k) # post)) c
     = Return (flatten pre @ name # flatten post)
   \<and> (parseErr c = None \<longrightarrow>
        map_result fst (validateContext resource c) \<noteq> Return (Some StructNotRecognized))"
proof (intro conjI impI)
  show "getResourceFields (StructValue (pre @ (name, OtherValue k) # post)) c
     = Return (flatten pre @ name # flatten post)"
    by (simp add: getResourceFields_StructValue flatten_append del: getResourceFields.simps)
next
  assume ok: "parseErr c = None"
  show "map_result fst (validateContext resource c) \<noteq> Return (Some StructNotRecognized)"
  proof (cases resource)
    case (StructValue fs)
    obtain d c1 where loop: "validateContext_loop (flatten fs) c = (d, c1)"
      by (cases "validateContext_loop (flatten fs) c")
    have "d \<noteq> Some StructNotRecognized"
    proof (cases "\<forall>v \<in> set (flatten fs). FormValue c v \<noteq> []")
      case True
      with loop show ?thesis by (simp add: validateContext_loop_ok)
    next
      case False
      then obtain v where "v \<in> set (flatten fs)" and "FormValue c v = []" by blast
      with loop show ?thesis by (auto simp: validateContext_loop_missing)
    qed
    with ok loop show ?thesis
      by (simp add: StructValue validateContext_struct FormParams_ok)
  next
    case (OtherValue k')
    then show ?thesis by (simp add: validateContext_def)
  qed
qed

text \<open>
  C8, amended, on a structure with a channel field between two strings, validated
  against a request that supplies all three names.
\<close>

theorem every_other_kind_is_a_leaf_witness:
  "parseErr (request [(''A'', [''1'']), (''Events'', [''2'']), (''B'', [''3''])]) = None
   \<and> getResourceFields
        (StructValue [(''A'', OtherValue String), (''Events'', OtherValue Chan), (''B'', OtherValue String)])
        (request [(''A'', [''1'']), (''Events'', [''2'']), (''B'', [''3''])])
       = Return [''A'', ''Events'', ''B'']
   \<and> map_result fst
        (validateContext
           (StructValue [(''A'', OtherValue String), (''Events'', OtherValue Chan), (''B'', OtherValue String)])
           (request [(''A'', [''1'']), (''Events'', [''2'']), (''B'', [''3''])]))
       \<noteq> Return (Some StructNotRecognized)"
  using every_other_kind_is_a_leaf
          [of "[(''A'', OtherValue String)]" "''Events''" Chan "[(''B'', OtherValue String)]"
              "request [(''A'', [''1'']), (''Events'', [''2'']), (''B'', [''3''])]"
              "StructValue [(''A'', OtherValue String), (''Events'', OtherValue Chan), (''B'', OtherValue String)]"]
  by (simp add: request_def)

section \<open>Issuing a token\<close>

lemma Unix_AddDate_days_7: "Unix (AddDate_days t 7) = Unix t + 604800"
  by (simp add: Unix_def AddDate_days_def)

lemma claim_set_eq:
  "fmupd ''iat'' (JInt iat)
     (fmupd ''exp'' (JInt exp)
       (fmupd ''aud'' (JString ''Moment-Service'')
         (fmupd ''sub'' (JString s) (fmupd ''iss'' (JString ''Auth-Service'') fmempty))))
   = claim_set s iat exp"
  by (rule fmap_ext) (auto simp: claim_set_def)

text \<open>
  What is handed to the signer: the five claims and nothing else, with \<^verbatim>\<open>iat\<close> from the
  second reading of the clock and \<^verbatim>\<open>exp\<close> from the first.
\<close>

lemma generateJwt_signs:
  assumes "ReadFile e keyPath = Inr p" and "ParseRSAPrivateKeyFromPEM e p = Inr key"
  shows "generateJwt e s =
     (case SignedString e
             ((jwt_New SigningMethodRS256)
                \<lparr>Claims := MapClaims (claim_set s (Unix (Now e 1)) (Unix (Now e 0) + 604800))\<rparr>) key of
        Inl err \<Rightarrow> ([], Some err)
      | Inr tok \<Rightarrow> (tok, None))"
  using assms
  by (simp add: generateJwt_def Let_def jwt_New_def Unix_AddDate_days_7 claim_set_eq UTC_def)

text \<open>
  When both readings of the clock fall into the same second, the expiry is the issue
  time plus 604800 seconds.
\<close>

lemma generateJwt_same_second:
  assumes "ReadFile e keyPath = Inr p" and "ParseRSAPrivateKeyFromPEM e p = Inr key"
    and "Unix (Now e 0) = Unix (Now e 1)"
  shows "generateJwt e s =
     (case SignedString e
             ((jwt_New SigningMethodRS256)
                \<lparr>Claims := MapClaims (claim_set s (Unix (Now e 1)) (Unix (Now e 1) + 604800))\<rparr>) key of
        Inl err \<Rightarrow> ([], Some err)
      | Inr tok \<Rightarrow> (tok, None))"
  using generateJwt_signs [OF assms(1,2)] assms(3) by simp

text \<open>
  C1 fails on the code. \<open>generateJwt\<close> reads the clock twice, first for \<^verbatim>\<open>exp\<close> (line
  180) and then for \<^verbatim>\<open>iat\<close> (line 181). With the first reading at 1.999999999 s and the
  second at 2.000000001 s after the epoch, whatever the signer, the token that is
  signed for \<^verbatim>\<open>bob\<close> carries \<^verbatim>\<open>iat\<close> = 2 and \<^verbatim>\<open>exp\<close> = 604801, which is not 2 + 604800.
\<close>

theorem generateJwt_reads_clock_twice:
  "generateJwt (test_env\<lparr>SignedString := sign,
                          Now := (\<lambda>n. if n = 0 then 1999999999 else 2000000001)\<rparr>) ''bob'' =
     (case sign ((jwt_New SigningMethodRS256)\<lparr>Claims := MapClaims (claim_set ''bob'' 2 604801)\<rparr>) ''KEY'' of
        Inl err \<Rightarrow> ([], Some err)
      | Inr tok \<Rightarrow> (tok, None))
   \<and> fmlookup (claim_set ''bob'' 2 604801) ''iat'' = Some (JInt 2)
   \<and> fmlookup (claim_set ''bob'' 2 604801) ''exp'' = Some (JInt 604801)
   \<and> (604801::int) \<noteq> 2 + 604800"
proof -
  let ?e = "test_env\<lparr>SignedString := sign,
                      Now := (\<lambda>n. if n = 0 then 1999999999 else 2000000001)\<rparr>"
  have "ReadFile ?e keyPath = Inr ''PEM''" and "ParseRSAPrivateKeyFromPEM ?e ''PEM'' = Inr ''KEY''"
    by (simp_all add: test_env_def)
  from generateJwt_signs [OF this, of "''bob''"] show ?thesis
    by (simp add: Unix_def claim_set_def)
qed

text \<open>
  C4 as stated fails: a first call issues a token, the key file is removed, and the
  next call fails with the error of \<^verbatim>\<open>ioutil.ReadFile\<close>.
\<close>

theorem key_loaded_once_counterexample:
  "generateJwt test_env ''bob'' = (''signed'', None)
   \<and> generateJwt (test_env\<lparr>ReadFile := (\<lambda>path. Inl (OtherError ''no such file or directory''))\<rparr>)
        ''bob''
       = ([], Some (OtherError ''no such file or directory''))"
  by (simp add: generateJwt_def test_env_def jwt_New_def Let_def)

text \<open>
  C4, amended. The signing key is read from its path and parsed on every call of
  \<open>generateJwt\<close>, and nothing is kept between calls: whenever the file cannot be read at
  the time of a call, or its content does not parse, that call returns no token and
  the error of the read or of the parse, whatever earlier calls returned.
\<close>

theorem key_loaded_on_every_call:
  "(ReadFile e keyPath = Inl err \<longrightarrow> generateJwt e userID = ([], Some err))
   \<and> (ReadFile e keyPath = Inr p \<and> ParseRSAPrivateKeyFromPEM e p = Inl err \<longrightarrow>
        generateJwt e userID = ([], Some err))"
  by (simp add: generateJwt_def jwt_New_def Let_def)

text \<open>C4, amended, on an unreadable key file and on a key file with malformed content.\<close>

theorem key_loaded_on_every_call_witness:
  "ReadFile (test_env\<lparr>ReadFile := (\<lambda>path. Inl (OtherError ''permission denied''))\<rparr>) keyPath
     = Inl (OtherError ''permission denied'')
   \<and> generateJwt (test_env\<lparr>ReadFile := (\<lambda>path. Inl (OtherError ''permission denied''))\<rparr>) ''bob''
     = ([], Some (OtherError ''permission denied''))
   \<and> ReadFile (test_env\<lparr>ReadFile := (\<lambda>path. Inr ''garbage'')\<rparr>) keyPath = Inr ''garbage''
   \<and> ParseRSAPrivateKeyFromPEM (test_env\<lparr>ReadFile := (\<lambda>path. Inr ''garbage'')\<rparr>) ''garbage''
     = Inl (OtherError ''invalid key'')
   \<and> generateJwt (test_env\<lparr>ReadFile := (\<lambda>path. Inr ''garbage'')\<rparr>) ''bob''
     = ([], Some (OtherError ''invalid key''))"
  using key_loaded_on_every_call
          [of "test_env\<lparr>ReadFile := (\<lambda>path. Inl (OtherError ''permission denied''))\<rparr>"
              "OtherError ''permission denied''" "''bob''" "''garbage''"]
        key_loaded_on_every_call
          [of "test_env\<lparr>ReadFile := (\<lambda>path. Inr ''garbage'')\<rparr>"
              "OtherError ''invalid key''" "''bob''" "''garbage''"]
  by (simp add: test_env_def)

section \<open>The handlers\<close>

text \<open>
  The status \<open>createUser\<close> answers with once the request is valid: 201, 409 for
  \<open>UserAlreadyExists\<close>, 500 for every other error of the gateway.
\<close>

lemma createUser_status:
  assumes "validateContext createUserReq c = Return (None, c1)"
  shows "map_result (response_status \<circ> fst) (createUser e c) =
     Return (Some (case CreateUser e \<lparr>AuthCredentials =
                      \<lparr>UserID = FormValue c1 ''UserID'', Password = FormValue c1 ''Password''\<rparr>,
                    Email = FormValue c1 ''Email''\<rparr> of
                None \<Rightarrow> StatusCreated
              | Some err \<Rightarrow> if err = UserAlreadyExists then StatusConflict
                            else StatusInternalServerError))"
  using assms by (simp add: createUser_def Let_def NoContent_def split: option.splits)

text \<open>\<open>authUser\<close> answers every error of the gateway with 401.\<close>

lemma authUser_gateway_error:
  assumes "validateContext authUserReq c = Return (None, c1)"
    and "AuthUser e \<lparr>UserID = FormValue c1 ''UserID'', Password = FormValue c1 ''Password''\<rparr> = Some err"
  shows "map_result (response_status \<circ> fst) (authUser e c) = Return (Some StatusUnauthorized)"
  using assms by (simp add: authUser_def Let_def NoContent_def)

text \<open>
  C3 fails on the code, on the login path. For a valid login request, a gateway that
  fails with an error other than \<open>Unauthorized\<close> (here a refused connection) is answered
  with 401, exactly as a gateway that answers \<open>Unauthorized\<close>; \<open>createUser\<close> tells
  \<open>UserAlreadyExists\<close> from other errors, \<open>authUser\<close> tells nothing apart.
\<close>

theorem authUser_collapses_gateway_errors:
  "map_result (response_status \<circ> fst)
     (authUser (test_env\<lparr>AuthUser := (\<lambda>aC. Some (OtherError ''connection refused''))\<rparr>)
        (request [(''UserID'', [''bob'']), (''Password'', [''secret''])]))
     = Return (Some StatusUnauthorized)
   \<and> map_result (response_status \<circ> fst)
     (authUser (test_env\<lparr>AuthUser := (\<lambda>aC. Some Unauthorized)\<rparr>)
        (request [(''UserID'', [''bob'']), (''Password'', [''secret''])]))
     = Return (Some StatusUnauthorized)"
  by (simp add: authUser_gateway_error [OF validate_bob_secret])

lemma createUser_calls:
  "\<exists>c' calls. createUser e c = Return (c', calls) \<and> list_all nonempty_call calls
     \<and> (map_result fst (validateContext createUserReq c) \<noteq> Return None \<longrightarrow> calls = [])"
proof -
  let ?fs = "[(''authUserReq'', authUserReq), (''Email'', OtherValue String)]"
  have req: "createUserReq = StructValue ?fs"
    and fl: "flatten ?fs = [''UserID'', ''Password'', ''Email'']"
    by (simp_all add: createUserReq_def authUserReq_def)
  obtain d c1 where run: "validateContext createUserReq c = Return (d, c1)"
    unfolding req using validateContext_struct_returns by blast
  show ?thesis
  proof (cases d)
    case (Some err)
    with run show ?thesis by (simp add: createUser_def)
  next
    case None
    with run have "c1 = c \<and> (\<forall>v \<in> set (flatten ?fs). FormValue c v \<noteq> [])"
      unfolding req by (simp add: validateContext_None)
    then have "c1 = c" and "FormValue c ''UserID'' \<noteq> []" and "FormValue c ''Password'' \<noteq> []"
      and "FormValue c ''Email'' \<noteq> []"
      unfolding fl by simp_all
    with run None show ?thesis
      by (simp add: createUser_def Let_def split: option.splits)
  qed
qed

lemma authUser_calls:
  "\<exists>c' calls. authUser e c = Return (c', calls) \<and> list_all nonempty_call calls
     \<and> (map_result fst (validateContext authUserReq c) \<noteq> Return None \<longrightarrow> calls = [])"
proof -
  let ?fs = "[(''UserID'', OtherValue String), (''Password'', OtherValue String)]"
  have req: "authUserReq = StructValue ?fs" and fl: "flatten ?fs = [''UserID'', ''Password'']"
    by (simp_all add: authUserReq_def)
  obtain d c1 where run: "validateContext authUserReq c = Return (d, c1)"
    unfolding req using validateContext_struct_returns by blast
  show ?thesis
  proof (cases d)
    case (Some err)
    with run show ?thesis by (simp add: authUser_def)
  next
    case None
    with run have "c1 = c \<and> (\<forall>v \<in> set (flatten ?fs). FormValue c v \<noteq> [])"
      unfolding req by (simp add: validateContext_None)
    then have "c1 = c" and "FormValue c ''UserID'' \<noteq> []" and "FormValue c ''Password'' \<noteq> []"
      unfolding fl by simp_all
    with run None show ?thesis
      by (simp add: authUser_def Let_def split: option.splits prod.splits)
  qed
qed

text \<open>
  C10. Both handlers return, and every call they make to the credential gateway
  carries non-empty strings in all its fields (\<^verbatim>\<open>UserID\<close> and \<^verbatim>\<open>Password\<close>, and \<^verbatim>\<open>Email\<close>
  for \<open>createUser\<close>); when the validation does not return nil, the gateway is not
  called at all.
\<close>

theorem gateway_receives_nonempty_fields:
  "(\<exists>c' calls. createUser e c = Return (c', calls) \<and> list_all nonempty_call calls
      \<and> (map_result fst (validateContext createUserReq c) \<noteq> Return None \<longrightarrow> calls = []))
   \<and> (\<exists>c' calls. authUser e c = Return (c', calls) \<and> list_all nonempty_call calls
      \<and> (map_result fst (validateContext authUserReq c) \<noteq> Return None \<longrightarrow> calls = []))"
  using createUser_calls authUser_calls by blast

text \<open>
  C10 on a login request with a blank password: the validation rejects it, and neither
  handler reaches the gateway.
\<close>

theorem gateway_receives_nonempty_fields_witness:
  "map_result fst
     (validateContext createUserReq (request [(''UserID'', [''bob'']), (''Password'', [''''])]))
     \<noteq> Return None
   \<and> map_result fst
     (validateContext authUserReq (request [(''UserID'', [''bob'']), (''Password'', [''''])]))
     \<noteq> Return None
   \<and> map_result snd (createUser test_env (request [(''UserID'', [''bob'']), (''Password'', [''''])]))
     = Return []
   \<and> map_result snd (authUser test_env (request [(''UserID'', [''bob'']), (''Password'', [''''])]))
     = Return []"
proof -
  let ?c = "request [(''UserID'', [''bob'']), (''Password'', [''''])]"
  have rejected: "map_result fst (validateContext createUserReq ?c) \<noteq> Return None"
    "map_result fst (validateContext authUserReq ?c) \<noteq> Return None"
    by (simp_all add: validateContext_def createUserReq_def authUserReq_def request_def
          FormParams_def FormValue_def fcard_finsert_if fcard_fempty)
  from gateway_receives_nonempty_fields [of test_env ?c] rejected
  show ?thesis by auto
qed

end
